theory Spec2Isabelle
  imports Main
begin

section \<open>Favourite prompts: \<open>createFavoritesStorage\<close>\<close>

text \<open>
  The stored state \<open>FavoritesStorage\<close> is a counter \<open>nextId\<close> and the list of prompts,
  newest first. Ids are JavaScript numbers that only ever hold small integers; they are
  modelled as \<open>int\<close>. The storage object \<open>favoritesStorage\<close> (\<open>get\<close>, and \<open>set\<close> with an
  updater function) is modelled by passing the stored state in and out.
\<close>

record FavoritePrompt =
  id' :: int
  title :: string
  content :: string

record FavoritesStorage =
  nextId :: int
  prompts :: "FavoritePrompt list"

definition initialState :: FavoritesStorage where
  "initialState = \<lparr>nextId = 1, prompts = []\<rparr>"


section \<open>Output schemas of the planner and the validator\<close>

text \<open>
  A value handed to a schema is a JSON value. An object is its list of key/value pairs in
  key order.
\<close>

datatype json =
    JNull
  | JBool bool
  | JNumber int
  | JString string
  | JArray "json list"
  | JObject "(string \<times> json) list"

text \<open>
  \<open>String.prototype.toLowerCase\<close>. Strings are lists of 8-bit characters; the letters
  \<open>A\<close> to \<open>Z\<close> (65 to 90) move to \<open>a\<close> to \<open>z\<close>, every other character stays. No character
  outside ASCII has a lower-case form among the letters of \<open>true\<close> and \<open>false\<close>, so the
  comparisons below come out as in JavaScript.
\<close>

definition toLowerChar :: "char \<Rightarrow> char" where
  "toLowerChar c =
     (let n = of_char c :: nat in if 65 \<le> n \<and> n \<le> 90 then char_of (n + 32) else c)"

definition toLowerCase :: "string \<Rightarrow> string" where
  "toLowerCase val = map toLowerChar val"

text \<open>
  The result of one zod schema on one value: the parsed value, a validation issue, or an
  exception thrown by a \<open>transform\<close> callback (zod does not catch it, so it leaves
  \<open>parse\<close> as it is). The argument \<open>None\<close> is \<open>undefined\<close>, the value of a missing key.
\<close>

datatype 'a parsed = Valid 'a | Invalid | Throws string

definition z_boolean :: "json option \<Rightarrow> bool parsed" where
  "z_boolean v = (case v of Some (JBool b) \<Rightarrow> Valid b | _ \<Rightarrow> Invalid)"

definition z_string :: "json option \<Rightarrow> string parsed" where
  "z_string v = (case v of Some (JString s) \<Rightarrow> Valid s | _ \<Rightarrow> Invalid)"

text \<open>The callback of \<open>z.string().transform(val => ...)\<close> in both schemas.\<close>

definition booleanString :: "string \<Rightarrow> bool parsed" where
  "booleanString val =
     (if toLowerCase val = ''true'' then Valid True
      else if toLowerCase val = ''false'' then Valid False
      else Throws ''Invalid boolean string'')"

text \<open>
  \<open>z.union([z.boolean(), z.string().transform(...)])\<close>: the options are tried in order and
  the first one that accepts the value gives the result.
\<close>

definition booleanLike :: "json option \<Rightarrow> bool parsed" where
  "booleanLike v =
     (case z_boolean v of
        Valid b \<Rightarrow> Valid b
      | _ \<Rightarrow> (case z_string v of Valid s \<Rightarrow> booleanString s | _ \<Rightarrow> Invalid))"

record PlannerOutput =
  observation :: string
  challenges :: string
  done' :: bool
  next_steps :: string
  reasoning :: string
  web_task :: bool

record ValidatorOutput =
  is_valid :: bool
  reason :: string
  answer :: string

text \<open>
  \<open>z.object({...})\<close>: the value must be an object and every field must be accepted by its
  schema. \<open>None\<close> is a failed validation, whether zod reports issues or the transform
  throws.
\<close>

definition accepted :: "'a parsed \<Rightarrow> 'a option" where
  "accepted r = (case r of Valid x \<Rightarrow> Some x | _ \<Rightarrow> None)"

definition plannerOutputSchema :: "json \<Rightarrow> PlannerOutput option" where
  "plannerOutputSchema input =
     (case input of
        JObject kv \<Rightarrow>
          Option.bind (accepted (z_string (map_of kv ''observation''))) (\<lambda>ob.
          Option.bind (accepted (z_string (map_of kv ''challenges''))) (\<lambda>ch.
          Option.bind (accepted (booleanLike (map_of kv ''done''))) (\<lambda>dn.
          Option.bind (accepted (z_string (map_of kv ''next_steps''))) (\<lambda>ns.
          Option.bind (accepted (z_string (map_of kv ''reasoning''))) (\<lambda>re.
          Option.bind (accepted (booleanLike (map_of kv ''web_task''))) (\<lambda>wt.
            Some \<lparr>observation = ob, challenges = ch, done' = dn, next_steps = ns,
                  reasoning = re, web_task = wt\<rparr>))))))
      | _ \<Rightarrow> None)"

definition validatorOutputSchema :: "json \<Rightarrow> ValidatorOutput option" where
  "validatorOutputSchema input =
     (case input of
        JObject kv \<Rightarrow>
          Option.bind (accepted (booleanLike (map_of kv ''is_valid''))) (\<lambda>iv.
          Option.bind (accepted (z_string (map_of kv ''reason''))) (\<lambda>re.
          Option.bind (accepted (z_string (map_of kv ''answer''))) (\<lambda>an.
            Some \<lparr>is_valid = iv, reason = re, answer = an\<rparr>)))
      | _ \<Rightarrow> None)"

text \<open>
  The specification's reading, written without \<open>toLowerCase\<close>: a string is a
  case-insensitive spelling of a lower-case word when each of its characters is the
  word's letter or that letter's capital. \<open>normalisesTo v b\<close> says that the value \<open>v\<close> is
  the boolean \<open>b\<close> or a case-insensitive spelling of its name.
\<close>

definition toUpperChar :: "char \<Rightarrow> char" where
  "toUpperChar c =
     (let n = of_char c :: nat in if 97 \<le> n \<and> n \<le> 122 then char_of (n - 32) else c)"

fun spellings :: "string \<Rightarrow> string list" where
  "spellings [] = [[]]"
| "spellings (c # cs) = concat (map (\<lambda>r. [c # r, toUpperChar c # r]) (spellings cs))"

definition normalisesTo :: "json option \<Rightarrow> bool \<Rightarrow> bool" where
  "normalisesTo v b =
     (case v of
        Some (JBool c) \<Rightarrow> c = b
      | Some (JString s) \<Rightarrow> s \<in> set (spellings (if b then ''true'' else ''false''))
      | _ \<Rightarrow> False)"

definition lowerLetter :: "char \<Rightarrow> bool" where
  "lowerLetter c = (97 \<le> (of_char c :: nat) \<and> (of_char c :: nat) \<le> 122)"

section \<open>Values thrown, events, action results, messages\<close>

text \<open>
  Modelled from the spec: the error taxonomy of section 7 and the predicates
  \<open>isAuthenticationError\<close>, \<open>isForbiddenError\<close>, \<open>isAbortedError\<close> of \<open>./errors\<close> and the class
  \<open>URLNotAllowedError\<close> of \<open>browser/views\<close>, none of which is among the sources. A thrown
  value is of one of the kinds the agents tell apart and carries its message;
  \<open>NonError\<close> is a thrown value that is not an \<open>Error\<close> object, given by its \<open>String(...)\<close>.
\<close>

datatype thrown =
    AuthenticationError string
  | ForbiddenError string
  | AbortedError string
  | URLNotAllowedError string
  | Error string
  | NonError string

definition isAuthenticationError :: "thrown \<Rightarrow> bool" where
  "isAuthenticationError e = (case e of AuthenticationError _ \<Rightarrow> True | _ \<Rightarrow> False)"

definition isForbiddenError :: "thrown \<Rightarrow> bool" where
  "isForbiddenError e = (case e of ForbiddenError _ \<Rightarrow> True | _ \<Rightarrow> False)"

definition isAbortedError :: "thrown \<Rightarrow> bool" where
  "isAbortedError e = (case e of AbortedError _ \<Rightarrow> True | _ \<Rightarrow> False)"

definition isURLNotAllowedError :: "thrown \<Rightarrow> bool" where
  "isURLNotAllowedError e = (case e of URLNotAllowedError _ \<Rightarrow> True | _ \<Rightarrow> False)"

text \<open>\<open>error instanceof Error ? error.message : String(error)\<close>\<close>

fun errorMessage :: "thrown \<Rightarrow> string" where
  "errorMessage (AuthenticationError m) = m"
| "errorMessage (ForbiddenError m) = m"
| "errorMessage (AbortedError m) = m"
| "errorMessage (URLNotAllowedError m) = m"
| "errorMessage (Error m) = m"
| "errorMessage (NonError m) = m"

text \<open>
  What an agent's \<open>execute\<close> throws: one of the three reclassified errors (with the
  message given to the constructor, and the cause where the source passes it), or the
  caught value itself.
\<close>

datatype raised =
    ChatModelAuthError string thrown
  | ChatModelForbiddenError string thrown
  | RequestCancelledError string
  | Rethrown thrown

text \<open>\<open>Actors\<close> is in the sources; the phases of \<open>ExecutionState\<close> are those the agents emit.\<close>

datatype Actors = SYSTEM | USER | PLANNER | NAVIGATOR | VALIDATOR

datatype ExecutionState = STEP_START | STEP_OK | STEP_FAIL | STEP_CANCEL | ACT_FAIL

type_synonym event = "Actors \<times> ExecutionState \<times> string"

text \<open>
  Modelled from the spec: the class \<open>ActionResult\<close> of \<open>../types\<close> (section 3:
  \<open>{extractedContent?, error?, isDone?, includeInMemory}\<close>), which is not among the sources.
  An optional field that was not given is \<open>None\<close>; \<open>new ActionResult()\<close> is the empty
  instance.
\<close>

record ActionResult =
  extractedContent :: "string option"
  error :: "string option"
  isDone :: "bool option"
  includeInMemory :: bool

definition emptyActionResult :: ActionResult where
  "emptyActionResult =
     \<lparr>extractedContent = None, error = None, isDone = None, includeInMemory = False\<rparr>"

text \<open>JavaScript truthiness of an optional string, as in \<open>if (r.extractedContent)\<close>.\<close>

definition truthy :: "string option \<Rightarrow> bool" where
  "truthy v = (case v of None \<Rightarrow> False | Some s \<Rightarrow> s \<noteq> [])"

text \<open>
  An agent's answer \<open>AgentOutput<T> = {id, result?, error?}\<close>. The field names carry a
  prefix because \<open>id\<close> is a HOL constant and \<open>error\<close> is a field of \<open>ActionResult\<close>.
\<close>

record 'r AgentOutput =
  agentId :: string
  agentResult :: "'r option"
  agentError :: "string option"

record NavigatorResult =
  navigatorDone :: bool

datatype 'r outcome = Resolved "'r AgentOutput" | Rejected raised

text \<open>Messages of the conversation: the content is text or a list of text and image parts.\<close>

datatype content_part = TextPart string | ImagePart string

datatype message_content = Text string | Parts "content_part list"

datatype BaseMessage =
    SystemMessage message_content
  | HumanMessage message_content
  | AIMessage message_content

text \<open>
  The navigator's model output \<open>{current_state, action}\<close>. The field \<open>action\<close> is an array
  (whose entries may be \<open>null\<close>), a string, or a single object; an action object is the
  list of its keys and values, in key order.
\<close>

type_synonym action_item = "(string \<times> json) list"

datatype action_field =
    ActionArray "action_item option list"
  | ActionString string
  | ActionObject action_item

record ModelOutput =
  current_state :: json
  action :: action_field

text \<open>
  The class \<open>MessageManager\<close> is not among the sources. The manager is represented by
  the calls made on it, oldest first; what \<open>getMessages\<close> returns for a given sequence of
  calls is a parameter of the agents.
\<close>

datatype mm_call =
    AddMessageWithTokens BaseMessage
  | AddStateMessage BaseMessage
  | RemoveLastStateMessage
  | AddModelOutput ModelOutput

section \<open>The task context and the navigator's collaborators\<close>

text \<open>
  The flags \<open>paused\<close> and \<open>stopped\<close> of the context are written from outside the step (the
  user pauses or stops the task) while the step awaits an external call, as the page is.
  They are kept together as the world, which every awaited call may change.
\<close>

record 'p world =
  page :: 'p
  paused :: bool
  stopped :: bool

text \<open>
  The context fields the agents read and write. \<open>events\<close> collects the calls of
  \<open>emitEvent\<close>, and \<open>executed\<close> the calls of an action's executor (name and arguments), in
  order; \<open>useVision\<close> and \<open>useVisionForPlanner\<close> are the fields of \<open>context.options\<close>.
\<close>

record 'p AgentContext =
  actionResults :: "ActionResult list"
  stateMessageAdded :: bool
  messageManager :: "mm_call list"
  events :: "event list"
  executed :: "(string \<times> json option) list"
  useVision :: bool
  useVisionForPlanner :: bool
  screenshot :: "string option"
  world :: "'p world"

text \<open>
  An \<open>Action\<close> (\<open>../actions/builder\<close>): \<open>getIndexArg\<close> gives the target-element index
  among the arguments, or \<open>null\<close>; \<open>call\<close> runs the executor, which may throw, may return
  \<open>undefined\<close>, and changes the world. The argument \<open>None\<close> is \<open>undefined\<close>.
\<close>

record 'p Action =
  getIndexArg :: "json option \<Rightarrow> int option"
  call :: "json option \<Rightarrow> 'p world \<Rightarrow> (thrown + ActionResult option) \<times> 'p world"

text \<open>
  The collaborators of the navigator, each at its interface: the registry lookup
  \<open>getAction\<close>, the prompt's \<open>getUserMessage\<close>, the manager's \<open>getMessages\<close>, the model call
  \<open>invoke\<close>, the browser's \<open>getState\<close> and \<open>removeHighlight\<close>, the fingerprint function
  \<open>calcBranchPathHashSet\<close>, what happens to the world during the one-second delay
  (\<open>settle\<close>), \<open>JSON.parse\<close> and \<open>repairJsonString\<close> on the action string, and the constant
  \<open>LLM_FORBIDDEN_ERROR_MESSAGE\<close>.
\<close>

record 'p Env =
  getAction :: "string \<Rightarrow> 'p Action option"
  getUserMessage :: "'p AgentContext \<Rightarrow> (thrown + BaseMessage) \<times> 'p world"
  getMessages :: "mm_call list \<Rightarrow> BaseMessage list"
  invoke :: "BaseMessage list \<Rightarrow> 'p world \<Rightarrow> (thrown + ModelOutput) \<times> 'p world"
  getState :: "bool \<Rightarrow> 'p world \<Rightarrow> (thrown + 'p) \<times> 'p world"
  calcBranchPathHashSet :: "'p \<Rightarrow> string set"
  removeHighlight :: "'p world \<Rightarrow> (thrown + unit) \<times> 'p world"
  settle :: "'p world \<Rightarrow> 'p world"
  jsonParse :: "string \<Rightarrow> thrown + action_item list"
  repairJsonString :: "string \<Rightarrow> thrown + string"
  LLM_FORBIDDEN_ERROR_MESSAGE :: string

definition emitEvent ::
  "Actors \<Rightarrow> ExecutionState \<Rightarrow> string \<Rightarrow> 'p AgentContext \<Rightarrow> 'p AgentContext" where
  "emitEvent actor state details c = c\<lparr>events := events c @ [(actor, state, details)]\<rparr>"

definition pausedOrStopped :: "'p AgentContext \<Rightarrow> bool" where
  "pausedOrStopped c = (paused (world c) \<or> stopped (world c))"

section \<open>The navigator: state message and memory\<close>

text \<open>
  \<open>String.prototype.trim\<close> on the ASCII white space (tab, line feed, vertical tab, form
  feed, carriage return, space), and \<open>errorText.split('\n').pop() || ''\<close>: the text after
  the last line feed.
\<close>

definition isSpace :: "char \<Rightarrow> bool" where
  "isSpace c = ((of_char c :: nat) \<in> {9, 10, 11, 12, 13, 32})"

definition trim :: "string \<Rightarrow> string" where
  "trim s = rev (dropWhile isSpace (rev (dropWhile isSpace s)))"

definition lastLine :: "string \<Rightarrow> string" where
  "lastLine s = rev (takeWhile (\<lambda>c. c \<noteq> CHR 0x0A) (rev s))"

text \<open>
  The loop of \<open>addStateMessageToMemory\<close> over \<open>context.actionResults\<close>: a result with
  \<open>includeInMemory\<close> adds its content and the last line of its error to the memory, and
  its slot in the buffer is overwritten with \<open>new ActionResult()\<close>. The function returns
  the buffer and the manager after the loop.
\<close>

fun foldResults :: "ActionResult list \<Rightarrow> mm_call list \<Rightarrow> ActionResult list \<times> mm_call list" where
  "foldResults [] mm = ([], mm)"
| "foldResults (r # rs) mm =
     (if includeInMemory r then
        (let mm1 = (case extractedContent r of
                      Some text \<Rightarrow>
                        if truthy (extractedContent r)
                        then mm @ [AddMessageWithTokens
                                     (HumanMessage (Text (''Action result: '' @ text)))]
                        else mm
                    | None \<Rightarrow> mm);
             mm2 = (case error r of
                      Some errorText \<Rightarrow>
                        if truthy (error r)
                        then mm1 @ [AddMessageWithTokens
                                      (HumanMessage
                                         (Text (''Action error: '' @ lastLine (trim errorText))))]
                        else mm1
                    | None \<Rightarrow> mm1)
         in (case foldResults rs mm2 of (rs', mm3) \<Rightarrow> (emptyActionResult # rs', mm3)))
      else (case foldResults rs mm of (rs', mm') \<Rightarrow> (r # rs', mm')))"

text \<open>
  \<open>addStateMessageToMemory\<close>. Nothing happens when the state message is already there.
  Otherwise the results are folded into the memory, the prompt builds the state message
  (an awaited call: it may throw, and the world may change meanwhile), the message is
  added and the flag is set. The first component is the error thrown, if any.
\<close>

definition addStateMessageToMemory ::
  "'p Env \<Rightarrow> 'p AgentContext \<Rightarrow> thrown option \<times> 'p AgentContext" where
  "addStateMessageToMemory env c =
     (if stateMessageAdded c then (None, c)
      else
        (let c1 = (if length (actionResults c) > 0
                   then (case foldResults (actionResults c) (messageManager c) of
                           (rs, mm) \<Rightarrow> c\<lparr>actionResults := rs, messageManager := mm\<rparr>)
                   else c)
         in (case getUserMessage env c1 of
               (Inl e, w) \<Rightarrow> (Some e, c1\<lparr>world := w\<rparr>)
             | (Inr state, w) \<Rightarrow>
                 (None, c1\<lparr>world := w,
                            messageManager := messageManager c1 @ [AddStateMessage state],
                            stateMessageAdded := True\<rparr>))))"

definition removeLastStateMessageFromMemory :: "'p AgentContext \<Rightarrow> 'p AgentContext" where
  "removeLastStateMessageFromMemory c =
     (if \<not> stateMessageAdded c then c
      else c\<lparr>messageManager := messageManager c @ [RemoveLastStateMessage],
              stateMessageAdded := False\<rparr>)"

definition addModelOutputToMemory :: "ModelOutput \<Rightarrow> 'p AgentContext \<Rightarrow> 'p AgentContext" where
  "addModelOutputToMemory modelOutput c =
     c\<lparr>messageManager := messageManager c @ [AddModelOutput modelOutput]\<rparr>"

section \<open>The navigator: \<open>doMultiAction\<close>\<close>

text \<open>Decimal digits of a number, as a template literal prints it.\<close>

function showNat :: "nat \<Rightarrow> string" where
  "showNat n =
     (if n < 10 then [char_of (48 + n)] else showNat (n div 10) @ [char_of (48 + n mod 10)])"
  by pat_completeness auto
termination
  by (relation "measure (\<lambda>n. n)") auto

declare showNat.simps [simp del]

text \<open>
  \<open>Object.keys(action)[0]\<close> and \<open>action[actionName]\<close>. For an object without keys the name
  is \<open>undefined\<close>, which is the property key and the printed text \<open>undefined\<close>; its arguments
  are \<open>undefined\<close>.
\<close>

definition actionName :: "action_item \<Rightarrow> string" where
  "actionName item = (case item of [] \<Rightarrow> ''undefined'' | (k, _) # _ \<Rightarrow> k)"

definition actionArgs :: "action_item \<Rightarrow> json option" where
  "actionArgs item = (case item of [] \<Rightarrow> None | (_, v) # _ \<Rightarrow> Some v)"

text \<open>
  The first part of \<open>doMultiAction\<close>: the action field becomes the list of actions.
  \<open>JSON.parse\<close> is typed by the variable it is assigned to.
\<close>

definition normaliseActions :: "'p Env \<Rightarrow> action_field \<Rightarrow> thrown + action_item list" where
  "normaliseActions env a =
     (case a of
        ActionArray xs \<Rightarrow> Inr (List.map_filter (\<lambda>item. item) xs)
      | ActionString s \<Rightarrow>
          (case jsonParse env s of
             Inr actions \<Rightarrow> Inr actions
           | Inl _ \<Rightarrow>
               (case repairJsonString env s of
                  Inl _ \<Rightarrow> Inl (Error ''Invalid action output format'')
                | Inr fixedAction \<Rightarrow>
                    (case jsonParse env fixedAction of
                       Inl _ \<Rightarrow> Inl (Error ''Invalid action output format'')
                     | Inr actions \<Rightarrow> Inr actions)))
      | ActionObject item \<Rightarrow> Inr [item])"

text \<open>
  The variables of the loop: the results so far, the error counter and the context.
\<close>

record 'p LoopState =
  results :: "ActionResult list"
  errCount :: nat
  ctx :: "'p AgentContext"

text \<open>
  How one pass through the loop body ends: the loop goes on with the next action
  (\<open>Advance\<close>), the function returns the results (\<open>Finish\<close>: a \<open>return results\<close> or the
  \<open>break\<close>), or an exception is raised (\<open>Raise\<close>). Each carries the loop variables at
  that moment.
\<close>

datatype 'p pass = Advance "'p LoopState" | Finish "'p LoopState" | Raise thrown "'p LoopState"

definition driftMessage :: "nat \<Rightarrow> nat \<Rightarrow> string" where
  "driftMessage i n = ''Something new appeared after action '' @ showNat i @ '' / '' @ showNat n"

text \<open>
  The fingerprint check before an action that takes an element index, for \<open>i > 0\<close>: the
  state is read again and its fingerprint compared with the cached one. The result is
  whether something new appeared.
\<close>

definition somethingNew ::
  "'p Env \<Rightarrow> bool \<Rightarrow> string set \<Rightarrow> 'p world \<Rightarrow> (thrown + bool) \<times> 'p world" where
  "somethingNew env vision cachedPathHashes w =
     (case getState env vision w of
        (Inl e, w') \<Rightarrow> (Inl e, w')
      | (Inr newState, w') \<Rightarrow>
          (Inr (\<not> calcBranchPathHashSet env newState \<subseteq> cachedPathHashes), w'))"

text \<open>
  The \<open>try\<close> block of the loop body, for the action \<open>item\<close> at index \<open>i\<close> of \<open>n\<close> actions.
\<close>

definition tryAction ::
  "'p Env \<Rightarrow> string set \<Rightarrow> nat \<Rightarrow> nat \<Rightarrow> action_item \<Rightarrow> 'p LoopState \<Rightarrow> 'p pass" where
  "tryAction env cachedPathHashes n i item s =
     (let c = ctx s in
      if pausedOrStopped c then Finish s
      else
        (case getAction env (actionName item) of
           None \<Rightarrow> Raise (Error (''Action '' @ actionName item @ '' not exists'')) s
         | Some actionInstance \<Rightarrow>
             (case (if 0 < i \<and> getIndexArg actionInstance (actionArgs item) \<noteq> None
                    then somethingNew env (useVision c) cachedPathHashes (world c)
                    else (Inr False, world c)) of
                (Inl e, w) \<Rightarrow> Raise e (s\<lparr>ctx := c\<lparr>world := w\<rparr>\<rparr>)
              | (Inr True, w) \<Rightarrow>
                  Finish (s\<lparr>results := results s @
                                [\<lparr>extractedContent = Some (driftMessage i n), error = None,
                                  isDone = None, includeInMemory = True\<rparr>],
                            ctx := c\<lparr>world := w\<rparr>\<rparr>)
              | (Inr False, w) \<Rightarrow>
                  (case call actionInstance (actionArgs item) w of
                     (r, w') \<Rightarrow>
                       (let c' = c\<lparr>world := w',
                                    executed := executed c @ [(actionName item, actionArgs item)]\<rparr>
                        in (case r of
                              Inl e \<Rightarrow> Raise e (s\<lparr>ctx := c'\<rparr>)
                            | Inr None \<Rightarrow>
                                Raise (Error (''Action '' @ actionName item @ '' returned undefined''))
                                      (s\<lparr>ctx := c'\<rparr>)
                            | Inr (Some result) \<Rightarrow>
                                (let s' = s\<lparr>results := results s @ [result], ctx := c'\<rparr>
                                 in if pausedOrStopped c' then Finish s'
                                    else Advance (s'\<lparr>ctx := c'\<lparr>world := settle env w'\<rparr>\<rparr>))))))))"

text \<open>The \<open>catch\<close> block of the loop body.\<close>

definition catchAction :: "thrown \<Rightarrow> 'p LoopState \<Rightarrow> 'p pass" where
  "catchAction e s =
     (if isURLNotAllowedError e then Raise e s
      else
        (let errorMsg = errorMessage e;
             s1 = s\<lparr>ctx := emitEvent NAVIGATOR ACT_FAIL errorMsg (ctx s),
                     errCount := errCount s + 1\<rparr>
         in if errCount s1 > 3 then Raise (Error ''Too many errors in actions'') s1
            else Advance (s1\<lparr>results := results s1 @
                                 [\<lparr>extractedContent = None, error = Some errorMsg,
                                   isDone = Some False, includeInMemory = True\<rparr>]\<rparr>)))"

definition doAction ::
  "'p Env \<Rightarrow> string set \<Rightarrow> nat \<Rightarrow> nat \<Rightarrow> action_item \<Rightarrow> 'p LoopState \<Rightarrow> 'p pass" where
  "doAction env cachedPathHashes n i item s =
     (case tryAction env cachedPathHashes n i item s of
        Raise e s' \<Rightarrow> catchAction e s'
      | p \<Rightarrow> p)"

text \<open>
  The loop \<open>for (const [i, action] of actions.entries())\<close>, from index \<open>i\<close> on. The first
  component of the result is the exception that leaves the loop, if any; the second
  holds the loop variables at the end.
\<close>

fun actionLoop ::
  "'p Env \<Rightarrow> string set \<Rightarrow> nat \<Rightarrow> nat \<Rightarrow> action_item list \<Rightarrow> 'p LoopState
     \<Rightarrow> thrown option \<times> 'p LoopState" where
  "actionLoop env cachedPathHashes n i [] s = (None, s)"
| "actionLoop env cachedPathHashes n i (item # rest) s =
     (case doAction env cachedPathHashes n i item s of
        Advance s' \<Rightarrow> actionLoop env cachedPathHashes n (Suc i) rest s'
      | Finish s' \<Rightarrow> (None, s')
      | Raise e s' \<Rightarrow> (Some e, s'))"

definition doMultiAction ::
  "'p Env \<Rightarrow> ModelOutput \<Rightarrow> 'p AgentContext \<Rightarrow> (thrown + ActionResult list) \<times> 'p AgentContext" where
  "doMultiAction env response c =
     (case normaliseActions env (action response) of
        Inl e \<Rightarrow> (Inl e, c)
      | Inr actions \<Rightarrow>
          (case getState env (useVision c) (world c) of
             (Inl e, w) \<Rightarrow> (Inl e, c\<lparr>world := w\<rparr>)
           | (Inr browserState, w) \<Rightarrow>
               (case removeHighlight env w of
                  (Inl e, w') \<Rightarrow> (Inl e, c\<lparr>world := w'\<rparr>)
                | (Inr _, w') \<Rightarrow>
                    (case actionLoop env (calcBranchPathHashSet env browserState)
                            (length actions) 0 actions
                            \<lparr>results = [], errCount = 0, ctx = c\<lparr>world := w'\<rparr>\<rparr> of
                       (None, s) \<Rightarrow> (Inr (results s), ctx s)
                     | (Some e, s) \<Rightarrow> (Inl e, ctx s)))))"

section \<open>The navigator: \<open>execute\<close>\<close>

text \<open>
  The \<open>catch\<close> block of \<open>execute\<close>: the state message is rolled back, then the error is
  classified.
\<close>

definition executeCatch ::
  "'p Env \<Rightarrow> thrown \<Rightarrow> 'p AgentContext \<Rightarrow> NavigatorResult outcome \<times> 'p AgentContext" where
  "executeCatch env e c =
     (let c1 = removeLastStateMessageFromMemory c in
      if isAuthenticationError e
      then (Rejected (ChatModelAuthError
              ''Navigator API Authentication failed. Please verify your API key'' e), c1)
      else if isForbiddenError e
      then (Rejected (ChatModelForbiddenError (LLM_FORBIDDEN_ERROR_MESSAGE env) e), c1)
      else if isAbortedError e
      then (Rejected (RequestCancelledError (errorMessage e)), c1)
      else if isURLNotAllowedError e
      then (Rejected (Rethrown e), c1)
      else
        (let errorMsg = errorMessage e;
             c2 = emitEvent NAVIGATOR STEP_FAIL (''Navigation failed: '' @ errorMsg) c1
         in (Resolved \<lparr>agentId = ''navigator'', agentResult = None, agentError = Some errorMsg\<rparr>,
             c2)))"

text \<open>
  A cancelled step: \<open>cancelled = true; return agentOutput\<close>, then the \<open>finally\<close> block.
\<close>

definition executeCancelled ::
  "'p AgentContext \<Rightarrow> NavigatorResult outcome \<times> 'p AgentContext" where
  "executeCancelled c =
     (Resolved \<lparr>agentId = ''navigator'', agentResult = None, agentError = None\<rparr>,
      emitEvent NAVIGATOR STEP_CANCEL ''Navigation cancelled''
        (removeLastStateMessageFromMemory c))"

text \<open>
  \<open>execute\<close>. \<open>initializeAdvancedModeCheck\<close> only sets the flag that \<open>invoke\<close> reads, and
  \<open>invoke\<close> is taken at its interface. The source repeats the line of the test after
  \<open>doMultiAction\<close>; the test is made once here.
\<close>

definition execute ::
  "'p Env \<Rightarrow> 'p AgentContext \<Rightarrow> NavigatorResult outcome \<times> 'p AgentContext" where
  "execute env c =
     (case addStateMessageToMemory env (emitEvent NAVIGATOR STEP_START ''Navigating...'' c) of
        (Some e, c1) \<Rightarrow> executeCatch env e c1
      | (None, c1) \<Rightarrow>
          if pausedOrStopped c1 then executeCancelled c1
          else
            (case invoke env (getMessages env (messageManager c1)) (world c1) of
               (Inl e, w) \<Rightarrow> executeCatch env e (c1\<lparr>world := w\<rparr>)
             | (Inr modelOutput, w) \<Rightarrow>
                 (let c2 = c1\<lparr>world := w\<rparr> in
                  if pausedOrStopped c2 then executeCancelled c2
                  else
                    (case doMultiAction env modelOutput
                            (addModelOutputToMemory modelOutput
                               (removeLastStateMessageFromMemory c2)) of
                       (Inl e, c3) \<Rightarrow> executeCatch env e c3
                     | (Inr rs, c3) \<Rightarrow>
                         (let c4 = c3\<lparr>actionResults := rs\<rparr> in
                          if pausedOrStopped c4 then executeCancelled c4
                          else
                            (Resolved
                               \<lparr>agentId = ''navigator'',
                                agentResult =
                                  Some \<lparr>navigatorDone =
                                          (length rs > 0 \<and> isDone (last rs) = Some True)\<rparr>,
                                agentError = None\<rparr>,
                             emitEvent NAVIGATOR STEP_OK ''Navigation done'' c4))))))"

section \<open>The planner and the validator: \<open>execute\<close>\<close>

text \<open>
  The collaborators of the planner and of the validator: the prompt's system message
  and user message content, the manager's \<open>getMessages\<close>, \<open>BaseAgent.invoke\<close> (which
  throws, or returns the validated model output, or a falsy value, \<open>None\<close>), and
  \<open>LLM_FORBIDDEN_ERROR_MESSAGE\<close>.
\<close>

record ('o, 'p) AgentEnv =
  getSystemMessage :: BaseMessage
  managerMessages :: "mm_call list \<Rightarrow> BaseMessage list"
  getUserMessageContent :: "'p AgentContext \<Rightarrow> thrown + string"
  baseInvoke :: "BaseMessage list \<Rightarrow> thrown + 'o option"
  forbiddenErrorMessage :: string

definition contentOf :: "BaseMessage \<Rightarrow> message_content" where
  "contentOf m = (case m of SystemMessage c \<Rightarrow> c | HumanMessage c \<Rightarrow> c | AIMessage c \<Rightarrow> c)"

text \<open>The text the planner keeps of a message content: the text parts, in order.\<close>

definition textOnly :: "message_content \<Rightarrow> string" where
  "textOnly c =
     (case c of
        Parts ps \<Rightarrow> concat (map (\<lambda>part. case part of TextPart t \<Rightarrow> t | ImagePart _ \<Rightarrow> []) ps)
      | Text s \<Rightarrow> s)"

definition plannerCatch ::
  "('o, 'p) AgentEnv \<Rightarrow> thrown \<Rightarrow> 'p AgentContext \<Rightarrow> 'o outcome \<times> 'p AgentContext" where
  "plannerCatch env e c =
     (if isAuthenticationError e
      then (Rejected (ChatModelAuthError
              ''Planner API Authentication failed. Please verify your API key'' e), c)
      else if isForbiddenError e
      then (Rejected (ChatModelForbiddenError (forbiddenErrorMessage env) e), c)
      else if isAbortedError e
      then (Rejected (RequestCancelledError (errorMessage e)), c)
      else
        (let errorMsg = errorMessage e
         in (Resolved \<lparr>agentId = ''planner'', agentResult = None, agentError = Some errorMsg\<rparr>,
             emitEvent PLANNER STEP_FAIL (''Planning failed: '' @ errorMsg) c)))"

definition plannerExecute ::
  "(PlannerOutput, 'p) AgentEnv \<Rightarrow> 'p AgentContext \<Rightarrow> PlannerOutput outcome \<times> 'p AgentContext" where
  "plannerExecute env c =
     (let c0 = emitEvent PLANNER STEP_START ''Planning...'' c;
          messages = managerMessages env (messageManager c0);
          plannerMessages = getSystemMessage env # drop 1 messages;
          plannerMessages' =
            (if \<not> useVisionForPlanner c0 \<and> useVision c0 \<and> length plannerMessages > 0
             then plannerMessages
                    [length plannerMessages - 1 :=
                       HumanMessage (Text (textOnly (contentOf (last plannerMessages))))]
             else plannerMessages)
      in (case baseInvoke env plannerMessages' of
            Inl e \<Rightarrow> plannerCatch env e c0
          | Inr None \<Rightarrow> plannerCatch env (Error ''Failed to validate planner output'') c0
          | Inr (Some modelOutput) \<Rightarrow>
              (Resolved \<lparr>agentId = ''planner'', agentResult = Some modelOutput, agentError = None\<rparr>,
               emitEvent PLANNER STEP_OK (next_steps modelOutput) c0)))"

definition validatorCatch ::
  "('o, 'p) AgentEnv \<Rightarrow> thrown \<Rightarrow> 'p AgentContext \<Rightarrow> 'o outcome \<times> 'p AgentContext" where
  "validatorCatch env e c =
     (if isAuthenticationError e
      then (Rejected (ChatModelAuthError
              ''Validator API Authentication failed. Please verify your API key'' e), c)
      else if isForbiddenError e
      then (Rejected (ChatModelForbiddenError (forbiddenErrorMessage env) e), c)
      else if isAbortedError e
      then (Rejected (RequestCancelledError (errorMessage e)), c)
      else
        (let errorMsg = errorMessage e
         in (Resolved \<lparr>agentId = ''validator'', agentResult = None,
                        agentError = Some (''Validation failed: '' @ errorMsg)\<rparr>,
             emitEvent VALIDATOR STEP_FAIL (''Validation failed: '' @ errorMsg) c)))"

text \<open>
  The validator's \<open>execute\<close>; \<open>plan\<close> is the agent's field set by \<open>setPlan\<close>. The line feed
  is the character 10.
\<close>

definition validatorExecute ::
  "(ValidatorOutput, 'p) AgentEnv \<Rightarrow> string option \<Rightarrow> 'p AgentContext
     \<Rightarrow> ValidatorOutput outcome \<times> 'p AgentContext" where
  "validatorExecute env plan c =
     (let c0 = emitEvent VALIDATOR STEP_START ''Validating...'' c
      in (case getUserMessageContent env c0 of
            Inl e \<Rightarrow> validatorCatch env e c0
          | Inr content0 \<Rightarrow>
              (let userMessageContent =
                     (case plan of
                        Some p \<Rightarrow>
                          if truthy plan
                          then content0 @ [CHR 0x0A, CHR 0x0A] @ ''The current plan is: ''
                                 @ [CHR 0x0A] @ p
                          else content0
                      | None \<Rightarrow> content0);
                   finalUserMessage =
                     (case screenshot c0 of
                        Some shot \<Rightarrow>
                          if useVision c0 \<and> truthy (screenshot c0)
                          then HumanMessage
                                 (Parts [TextPart userMessageContent,
                                         ImagePart (''data:image/jpeg;base64,'' @ shot)])
                          else HumanMessage (Text userMessageContent)
                      | None \<Rightarrow> HumanMessage (Text userMessageContent))
               in (case baseInvoke env [getSystemMessage env, finalUserMessage] of
                     Inl e \<Rightarrow> validatorCatch env e c0
                   | Inr None \<Rightarrow> validatorCatch env (Error ''Failed to validate task result'') c0
                   | Inr (Some modelOutput) \<Rightarrow>
                       (let c1 =
                              (if \<not> is_valid modelOutput
                               then (let msg = ''The answer is not yet correct. ''
                                                 @ reason modelOutput @ ''.''
                                     in (emitEvent VALIDATOR STEP_FAIL msg c0)
                                          \<lparr>actionResults :=
                                             [\<lparr>extractedContent = Some msg, error = None,
                                               isDone = None, includeInMemory = True\<rparr>]\<rparr>)
                               else emitEvent VALIDATOR STEP_OK (answer modelOutput) c0)
                        in (Resolved \<lparr>agentId = ''validator'', agentResult = Some modelOutput,
                                       agentError = None\<rparr>, c1))))))"

section \<open>The message history behind the manager's calls\<close>












section \<open>Auxiliary notions for the statements\<close>

text \<open>The loop variables a pass ends with.\<close>

fun stateOf :: "'p pass \<Rightarrow> 'p LoopState" where
  "stateOf (Advance s) = s"
| "stateOf (Finish s) = s"
| "stateOf (Raise e s) = s"



text \<open>What the loop of \<open>addStateMessageToMemory\<close> leaves in a slot of the buffer.\<close>

definition resetIfInMemory :: "ActionResult \<Rightarrow> ActionResult" where
  "resetIfInMemory r = (if includeInMemory r then emptyActionResult else r)"

section \<open>A small registry and page, for concrete runs\<close>

text \<open>
  A page is the set of the fingerprints of its elements. \<open>click_element\<close> takes an element
  index; \<open>open_menu\<close> adds an element to the page; \<open>go_to_url\<close> is refused with a
  disallowed-navigation error; \<open>broken\<close> throws an error with the message given as its
  argument; \<open>done\<close> finishes the task.
\<close>

definition exampleClick :: "string set Action" where
  "exampleClick =
     \<lparr>getIndexArg = (\<lambda>args. case args of
                        Some (JObject kv) \<Rightarrow>
                          (case map_of kv ''index'' of Some (JNumber k) \<Rightarrow> Some k | _ \<Rightarrow> None)
                      | _ \<Rightarrow> None),
      call = (\<lambda>args w. (Inr (Some \<lparr>extractedContent = Some ''Clicked'', error = None,
                                    isDone = Some False, includeInMemory = True\<rparr>), w))\<rparr>"

definition exampleOpenMenu :: "string set Action" where
  "exampleOpenMenu =
     \<lparr>getIndexArg = (\<lambda>args. None),
      call = (\<lambda>args w. (Inr (Some \<lparr>extractedContent = Some ''Menu opened'', error = None,
                                    isDone = Some False, includeInMemory = True\<rparr>),
                        w\<lparr>page := insert ''menu'' (page w)\<rparr>))\<rparr>"

definition exampleGoToUrl :: "string set Action" where
  "exampleGoToUrl =
     \<lparr>getIndexArg = (\<lambda>args. None),
      call = (\<lambda>args w. (Inl (URLNotAllowedError ''URL not allowed''), w))\<rparr>"

definition exampleBroken :: "string set Action" where
  "exampleBroken =
     \<lparr>getIndexArg = (\<lambda>args. None),
      call = (\<lambda>args w. (Inl (Error (case args of Some (JString m) \<Rightarrow> m | _ \<Rightarrow> ''failed'')), w))\<rparr>"

definition exampleDone :: "string set Action" where
  "exampleDone =
     \<lparr>getIndexArg = (\<lambda>args. None),
      call = (\<lambda>args w. (Inr (Some \<lparr>extractedContent = Some ''Finished'', error = None,
                                    isDone = Some True, includeInMemory = True\<rparr>), w))\<rparr>"

definition exampleRegistry :: "string \<Rightarrow> string set Action option" where
  "exampleRegistry name =
     (if name = ''click_element'' then Some exampleClick
      else if name = ''open_menu'' then Some exampleOpenMenu
      else if name = ''go_to_url'' then Some exampleGoToUrl
      else if name = ''broken'' then Some exampleBroken
      else if name = ''done'' then Some exampleDone
      else None)"

text \<open>The collaborators of a run in which the model answers \<open>modelOutput\<close>.\<close>

definition exampleEnv :: "ModelOutput \<Rightarrow> string set Env" where
  "exampleEnv modelOutput =
     \<lparr>getAction = exampleRegistry,
      getUserMessage = (\<lambda>c. (Inr (HumanMessage (Text ''Current browser state'')), world c)),
      getMessages = (\<lambda>calls. []),
      invoke = (\<lambda>msgs w. (Inr modelOutput, w)),
      getState = (\<lambda>vision w. (Inr (page w), w)),
      calcBranchPathHashSet = (\<lambda>p. p),
      removeHighlight = (\<lambda>w. (Inr (), w)),
      settle = (\<lambda>w. w),
      jsonParse = (\<lambda>s. Inl (Error ''Unexpected token'')),
      repairJsonString = (\<lambda>s. Inl (Error ''Cannot repair'')),
      LLM_FORBIDDEN_ERROR_MESSAGE = ''Access denied''\<rparr>"

definition exampleOutput :: "action_item list \<Rightarrow> ModelOutput" where
  "exampleOutput items = \<lparr>current_state = JNull, action = ActionArray (map Some items)\<rparr>"

definition exampleContext :: "string set AgentContext" where
  "exampleContext =
     \<lparr>actionResults = [], stateMessageAdded = False, messageManager = [], events = [],
      executed = [], useVision = False, useVisionForPlanner = False, screenshot = None,
      world = \<lparr>page = {''a'', ''b''}, paused = False, stopped = False\<rparr>\<rparr>"

definition exampleState :: "nat \<Rightarrow> string set LoopState" where
  "exampleState k = \<lparr>results = [], errCount = k, ctx = exampleContext\<rparr>"

definition broken :: "string \<Rightarrow> action_item" where
  "broken m = [(''broken'', JString m)]"

definition click :: "int \<Rightarrow> action_item" where
  "click k = [(''click_element'', JObject [(''index'', JNumber k)])]"

text \<open>The calls that add an action result or error to the memory.\<close>

definition isMemoryMessage :: "mm_call \<Rightarrow> bool" where
  "isMemoryMessage x = (case x of AddMessageWithTokens _ \<Rightarrow> True | _ \<Rightarrow> False)"

text \<open>
  Collaborators of a planner or validator run in which \<open>BaseAgent.invoke\<close> gives
  \<open>answer'\<close>, a plan, and the example context with the \<open>paused\<close> flag set.
\<close>

definition exampleAgentEnv :: "thrown + 'o option \<Rightarrow> ('o, string set) AgentEnv" where
  "exampleAgentEnv answer' =
     \<lparr>getSystemMessage = SystemMessage (Text ''System prompt''),
      managerMessages = (\<lambda>calls. []),
      getUserMessageContent = (\<lambda>c. Inr ''Current state''),
      baseInvoke = (\<lambda>msgs. answer'),
      forbiddenErrorMessage = ''Access denied''\<rparr>"

definition examplePlan :: PlannerOutput where
  "examplePlan =
     \<lparr>observation = ''A news site is open'', challenges = ''None'', done' = False,
      next_steps = ''Open the first headline'', reasoning = ''The task is not done'',
      web_task = True\<rparr>"

definition pausedContext :: "string set AgentContext" where
  "pausedContext = exampleContext\<lparr>world := \<lparr>page = {''a'', ''b''}, paused = True, stopped = False\<rparr>\<rparr>"



section \<open>Theorems\<close>



subsection \<open>Boolean-like schema fields\<close>

lemma of_char_lt: "(of_char (c::char) :: nat) < 256"
  by (metis of_char_of char_of_char mod_less_divisor zero_less_numeral)

lemma char_eq_code:
  "(char_of (n::nat) = c) = (n mod 256 = of_char c)"
  "(c = char_of n) = (n mod 256 = of_char c)"
proof -
  show "(char_of n = c) = (n mod 256 = of_char c)"
    by (simp add: char_of_eq_iff take_bit_eq_mod)
  then show "(c = char_of n) = (n mod 256 = of_char c)"
    by auto
qed

lemma char_eq_iff_nat: "(c = d) = ((of_char c :: nat) = of_char d)"
  by (metis char_of_char)

lemma of_char_toLowerChar:
  "(of_char (toLowerChar c) :: nat) =
     (if 65 \<le> (of_char c :: nat) \<and> (of_char c :: nat) \<le> 90 then of_char c + 32 else of_char c)"
  by (simp add: toLowerChar_def Let_def)

lemma of_char_toUpperChar:
  "(of_char (toUpperChar c) :: nat) =
     (if 97 \<le> (of_char c :: nat) \<and> (of_char c :: nat) \<le> 122 then of_char c - 32 else of_char c)"
proof -
  have "(of_char c :: nat) - 32 < 256"
    using of_char_lt [of c] by arith
  then show ?thesis
    by (simp add: toUpperChar_def Let_def)
qed

lemma toLowerChar_eq:
  assumes "lowerLetter d"
  shows "(toLowerChar c = d) = (c = d \<or> c = toUpperChar d)"
  using assms
  unfolding char_eq_iff_nat of_char_toLowerChar of_char_toUpperChar lowerLetter_def
  by auto

lemma toLowerCase_eq:
  "list_all lowerLetter w \<Longrightarrow> (toLowerCase s = w) = (s \<in> set (spellings w))"
proof (induction w arbitrary: s)
  case Nil
  then show ?case by (simp add: toLowerCase_def)
next
  case (Cons d w)
  then show ?case
    by (cases s) (auto simp: toLowerCase_def toLowerChar_eq)
qed

lemma lower_true: "(toLowerCase s = ''true'') = (s \<in> set (spellings ''true''))"
  by (rule toLowerCase_eq) (simp add: lowerLetter_def)

lemma lower_false: "(toLowerCase s = ''false'') = (s \<in> set (spellings ''false''))"
  by (rule toLowerCase_eq) (simp add: lowerLetter_def)

lemma true_not_false: "s \<in> set (spellings ''true'') \<Longrightarrow> s \<notin> set (spellings ''false'')"
  using lower_true [of s] lower_false [of s] by auto

lemma booleanLike_iff: "(booleanLike v = Valid b) = normalisesTo v b"
proof (cases v)
  case None
  then show ?thesis
    by (simp add: booleanLike_def z_boolean_def z_string_def normalisesTo_def)
next
  case (Some j)
  show ?thesis
  proof (cases j)
    case (JString s)
    with Some show ?thesis
      using true_not_false [of s]
      by (auto simp: booleanLike_def z_boolean_def z_string_def normalisesTo_def
          booleanString_def lower_true lower_false)
  qed (use Some in \<open>auto simp: booleanLike_def z_boolean_def z_string_def normalisesTo_def\<close>)
qed

lemma booleanLike_string:
  "booleanLike (Some (JString s)) =
     (if normalisesTo (Some (JString s)) True then Valid True
      else if normalisesTo (Some (JString s)) False then Valid False
      else Throws ''Invalid boolean string'')"
  by (simp add: booleanLike_def z_boolean_def z_string_def normalisesTo_def
      booleanString_def lower_true lower_false)

lemma accepted_booleanLike: "accepted (booleanLike v) = Some b \<Longrightarrow> normalisesTo v b"
  using booleanLike_iff [of v b] by (simp add: accepted_def split: parsed.splits)

lemma plannerOutputSchema_Some:
  "plannerOutputSchema (JObject kv) = Some po \<Longrightarrow>
     accepted (booleanLike (map_of kv ''done'')) = Some (done' po)
     \<and> accepted (booleanLike (map_of kv ''web_task'')) = Some (web_task po)"
  by (auto simp: plannerOutputSchema_def bind_eq_Some_conv)

lemma validatorOutputSchema_Some:
  "validatorOutputSchema (JObject kv) = Some vo \<Longrightarrow>
     accepted (booleanLike (map_of kv ''is_valid'')) = Some (is_valid vo)"
  by (auto simp: validatorOutputSchema_def bind_eq_Some_conv)

text \<open>
  C6. A boolean-like field (\<open>done\<close>, \<open>web_task\<close>, \<open>is_valid\<close>) is accepted with value \<open>b\<close>
  exactly when the value supplied is the boolean \<open>b\<close> or a case-insensitive spelling of
  its name; a string that is neither spelling makes the transform throw, and then the
  whole schema rejects its input.
\<close>

theorem boolean_like_normalisation:
  "(booleanLike v = Valid b) = normalisesTo v b
   \<and> booleanLike (Some (JBool b)) = Valid b
   \<and> booleanLike (Some (JString s)) =
       (if normalisesTo (Some (JString s)) True then Valid True
        else if normalisesTo (Some (JString s)) False then Valid False
        else Throws ''Invalid boolean string'')
   \<and> (plannerOutputSchema (JObject kv) = Some po \<longrightarrow>
        normalisesTo (map_of kv ''done'') (done' po)
        \<and> normalisesTo (map_of kv ''web_task'') (web_task po))
   \<and> (validatorOutputSchema (JObject kv) = Some vo \<longrightarrow>
        normalisesTo (map_of kv ''is_valid'') (is_valid vo))"
  using booleanLike_iff [of v b] booleanLike_string [of s]
    plannerOutputSchema_Some [of kv po] validatorOutputSchema_Some [of kv vo]
    accepted_booleanLike [of "map_of kv ''done''" "done' po"]
    accepted_booleanLike [of "map_of kv ''web_task''" "web_task po"]
    accepted_booleanLike [of "map_of kv ''is_valid''" "is_valid vo"]
  by (simp add: booleanLike_def z_boolean_def)

theorem boolean_like_normalisation_witness:
  "booleanLike (Some (JString ''true'')) = Valid True
   \<and> booleanLike (Some (JString ''TRUE'')) = Valid True
   \<and> booleanLike (Some (JString ''False'')) = Valid False
   \<and> booleanLike (Some (JString ''yes'')) = Throws ''Invalid boolean string''
   \<and> plannerOutputSchema (JObject
        [(''observation'', JString ''o''), (''challenges'', JString ''c''),
         (''done'', JString ''TRUE''), (''next_steps'', JString ''n''),
         (''reasoning'', JString ''r''), (''web_task'', JBool False)])
       = Some \<lparr>observation = ''o'', challenges = ''c'', done' = True, next_steps = ''n'',
               reasoning = ''r'', web_task = False\<rparr>
   \<and> plannerOutputSchema (JObject
        [(''observation'', JString ''o''), (''challenges'', JString ''c''),
         (''done'', JString ''yes''), (''next_steps'', JString ''n''),
         (''reasoning'', JString ''r''), (''web_task'', JBool False)]) = None
   \<and> validatorOutputSchema (JObject
        [(''is_valid'', JString ''False''), (''reason'', JString ''r''),
         (''answer'', JString ''a'')])
       = Some \<lparr>is_valid = False, reason = ''r'', answer = ''a''\<rparr>"
  using boolean_like_normalisation
          [of "Some (JString ''true'')" True "''yes''"
              "[(''observation'', JString ''o''), (''challenges'', JString ''c''),
                (''done'', JString ''TRUE''), (''next_steps'', JString ''n''),
                (''reasoning'', JString ''r''), (''web_task'', JBool False)]"
              "\<lparr>observation = ''o'', challenges = ''c'', done' = True, next_steps = ''n'',
                reasoning = ''r'', web_task = False\<rparr>"
              "\<lparr>is_valid = False, reason = ''r'', answer = ''a''\<rparr>"]
  by (simp add: booleanLike_def z_boolean_def z_string_def booleanString_def
      toLowerCase_def toLowerChar_def char_eq_code plannerOutputSchema_def
      validatorOutputSchema_def accepted_def normalisesTo_def toUpperChar_def)

subsection \<open>The action loop\<close>

lemma somethingNew_cases:
  obtains e w where "somethingNew env v cached w0 = (Inl e, w)"
  | st w where "getState env v w0 = (Inr st, w)"
      "somethingNew env v cached w0 = (Inr (\<not> calcBranchPathHashSet env st \<subseteq> cached), w)"
  by (cases "getState env v w0"; cases "fst (getState env v w0)")
     (auto simp: somethingNew_def)

lemma tryAction_frame:
  "errCount (stateOf (tryAction env cached n i item s)) = errCount s
   \<and> events (ctx (stateOf (tryAction env cached n i item s))) = events (ctx s)
   \<and> messageManager (ctx (stateOf (tryAction env cached n i item s))) = messageManager (ctx s)
   \<and> stateMessageAdded (ctx (stateOf (tryAction env cached n i item s))) = stateMessageAdded (ctx s)"
  by (simp add: tryAction_def Let_def split: option.split prod.split sum.split bool.split)

lemma tryAction_Raise_results:
  "tryAction env cached n i item s = Raise e s0 \<Longrightarrow> results s0 = results s"
  by (auto simp: tryAction_def Let_def split: option.splits prod.splits sum.splits bool.splits if_splits)

lemma tryAction_Raise_frame:
  assumes "tryAction env cached n i item s = Raise e s0"
  shows "errCount s0 = errCount s" "results s0 = results s"
    "events (ctx s0) = events (ctx s)"
    "messageManager (ctx s0) = messageManager (ctx s)"
    "stateMessageAdded (ctx s0) = stateMessageAdded (ctx s)"
  using tryAction_frame [of env cached n i item s] tryAction_Raise_results [OF assms] assms
  by simp_all




lemma doAction_Raise:
  assumes "tryAction env cached n i item s = Raise e s0"
  shows "doAction env cached n i item s = catchAction e s0"
  using assms by (simp add: doAction_def)




text \<open>
  C3. At an index \<open>i > 0\<close> whose action takes an element index, the state is read again;
  when its fingerprint is not a subset of the cached one, the loop ends there: the
  informational result (content set, no error) is appended, and neither this action nor
  any later one is executed, whatever the remaining actions are.
\<close>

theorem drift_stops_batch:
  assumes "\<not> pausedOrStopped (ctx s)"
    and "getAction env (actionName item) = Some a"
    and "getIndexArg a (actionArgs item) = Some k"
    and "0 < i"
    and "getState env (useVision (ctx s)) (world (ctx s)) = (Inr newState, w)"
    and "\<not> calcBranchPathHashSet env newState \<subseteq> cachedPathHashes"
  shows "actionLoop env cachedPathHashes n i (item # rest) s =
           (None, s\<lparr>results := results s @
                        [\<lparr>extractedContent = Some (driftMessage i n), error = None,
                          isDone = None, includeInMemory = True\<rparr>],
                     ctx := (ctx s)\<lparr>world := w\<rparr>\<rparr>)"
proof -
  have "tryAction env cachedPathHashes n i item s =
          Finish (s\<lparr>results := results s @
                        [\<lparr>extractedContent = Some (driftMessage i n), error = None,
                          isDone = None, includeInMemory = True\<rparr>],
                     ctx := (ctx s)\<lparr>world := w\<rparr>\<rparr>)"
    using assms by (simp add: tryAction_def Let_def somethingNew_def)
  then show ?thesis
    by (simp add: doAction_def)
qed

lemma executeCatch_URLNotAllowed:
  "isURLNotAllowedError e \<Longrightarrow>
     executeCatch env e c = (Rejected (Rethrown e), removeLastStateMessageFromMemory c)"
  by (cases e)
     (simp_all add: executeCatch_def isURLNotAllowedError_def isAuthenticationError_def
        isForbiddenError_def isAbortedError_def)

text \<open>
  C4. A disallowed-navigation error raised in a pass leaves the loop at once, with the
  error counter, the results and the events as they were; \<open>execute\<close> rolls back the state
  message and throws the same error again instead of returning an output.
\<close>

theorem disallowed_navigation_is_fatal:
  "(tryAction env cached n i item s = Raise e s0 \<and> isURLNotAllowedError e \<longrightarrow>
      actionLoop env cached n i (item # rest) s = (Some e, s0)
      \<and> errCount s0 = errCount s \<and> results s0 = results s
      \<and> events (ctx s0) = events (ctx s))
   \<and> (isURLNotAllowedError e \<longrightarrow>
        executeCatch env e c3 = (Rejected (Rethrown e), removeLastStateMessageFromMemory c3))
   \<and> (addStateMessageToMemory env (emitEvent NAVIGATOR STEP_START ''Navigating...'' c) = (None, c1)
      \<and> \<not> pausedOrStopped c1
      \<and> invoke env (getMessages env (messageManager c1)) (world c1) = (Inr modelOutput, w)
      \<and> \<not> pausedOrStopped (c1\<lparr>world := w\<rparr>)
      \<and> doMultiAction env modelOutput
           (addModelOutputToMemory modelOutput
              (removeLastStateMessageFromMemory (c1\<lparr>world := w\<rparr>))) = (Inl e, c3)
      \<and> isURLNotAllowedError e \<longrightarrow>
        execute env c = (Rejected (Rethrown e), removeLastStateMessageFromMemory c3))"
proof (intro conjI impI)
  assume "tryAction env cached n i item s = Raise e s0 \<and> isURLNotAllowedError e"
  then have t: "tryAction env cached n i item s = Raise e s0" and u: "isURLNotAllowedError e"
    by simp_all
  from u show "actionLoop env cached n i (item # rest) s = (Some e, s0)"
    by (simp add: doAction_Raise [OF t] catchAction_def)
  from tryAction_Raise_frame [OF t]
  show "errCount s0 = errCount s" "results s0 = results s" "events (ctx s0) = events (ctx s)"
    by simp_all
next
  assume "isURLNotAllowedError e"
  then show "executeCatch env e c3 = (Rejected (Rethrown e), removeLastStateMessageFromMemory c3)"
    by (rule executeCatch_URLNotAllowed)
next
  assume "addStateMessageToMemory env (emitEvent NAVIGATOR STEP_START ''Navigating...'' c) = (None, c1)
      \<and> \<not> pausedOrStopped c1
      \<and> invoke env (getMessages env (messageManager c1)) (world c1) = (Inr modelOutput, w)
      \<and> \<not> pausedOrStopped (c1\<lparr>world := w\<rparr>)
      \<and> doMultiAction env modelOutput
           (addModelOutputToMemory modelOutput
              (removeLastStateMessageFromMemory (c1\<lparr>world := w\<rparr>))) = (Inl e, c3)
      \<and> isURLNotAllowedError e"
  then show "execute env c = (Rejected (Rethrown e), removeLastStateMessageFromMemory c3)"
    by (simp add: execute_def Let_def executeCatch_URLNotAllowed)
qed

lemmas example_defs = exampleEnv_def exampleRegistry_def exampleContext_def exampleState_def
  exampleClick_def exampleOpenMenu_def exampleGoToUrl_def exampleBroken_def exampleDone_def
  exampleOutput_def broken_def click_def









lemmas loop_defs = tryAction_def doAction_def catchAction_def Let_def actionName_def
  actionArgs_def pausedOrStopped_def emitEvent_def somethingNew_def
  isURLNotAllowedError_def


theorem drift_stops_batch_witness:
  "actionLoop (exampleEnv (exampleOutput [])) {''a'', ''b''} 3 1 [click 1, click 2]
     \<lparr>results = [], errCount = 0,
      ctx = exampleContext\<lparr>world := \<lparr>page = {''menu'', ''a'', ''b''}, paused = False,
                                      stopped = False\<rparr>\<rparr>\<rparr>
   = (None,
      \<lparr>results = [\<lparr>extractedContent = Some ''Something new appeared after action 1 / 3'',
                    error = None, isDone = None, includeInMemory = True\<rparr>],
       errCount = 0,
       ctx = exampleContext\<lparr>world := \<lparr>page = {''menu'', ''a'', ''b''}, paused = False,
                                       stopped = False\<rparr>\<rparr>\<rparr>)
   \<and> doMultiAction (exampleEnv (exampleOutput []))
        (exampleOutput [[(''open_menu'', JNull)], click 1, click 2]) exampleContext
     = (Inr [\<lparr>extractedContent = Some ''Menu opened'', error = None, isDone = Some False,
              includeInMemory = True\<rparr>,
             \<lparr>extractedContent = Some ''Something new appeared after action 1 / 3'',
              error = None, isDone = None, includeInMemory = True\<rparr>],
        exampleContext\<lparr>executed := [(''open_menu'', Some JNull)],
                         world := \<lparr>page = {''menu'', ''a'', ''b''}, paused = False,
                                    stopped = False\<rparr>\<rparr>)"
  using drift_stops_batch
    [where s = "\<lparr>results = [], errCount = 0,
                  ctx = exampleContext\<lparr>world := \<lparr>page = {''menu'', ''a'', ''b''},
                                                  paused = False, stopped = False\<rparr>\<rparr>\<rparr>"
       and env = "exampleEnv (exampleOutput [])" and item = "click 1" and a = exampleClick and k = 1
       and i = 1 and newState = "{''menu'', ''a'', ''b''}"
       and w = "\<lparr>page = {''menu'', ''a'', ''b''}, paused = False, stopped = False\<rparr>"
       and cachedPathHashes = "{''a'', ''b''}" and n = 3 and rest = "[click 2]"]
  by (simp add: example_defs loop_defs doMultiAction_def normaliseActions_def
      List.map_filter_def driftMessage_def showNat.simps char_eq_code)

theorem disallowed_navigation_is_fatal_witness:
  "tryAction (exampleEnv (exampleOutput [])) {''a'', ''b''} 3 1 [(''go_to_url'', JString ''https://x.test'')]
       (exampleState 0)
     = Raise (URLNotAllowedError ''URL not allowed'')
         (stateOf (tryAction (exampleEnv (exampleOutput [])) {''a'', ''b''} 3 1
                     [(''go_to_url'', JString ''https://x.test'')] (exampleState 0)))
   \<and> isURLNotAllowedError (URLNotAllowedError ''URL not allowed'')
   \<and> execute
        (exampleEnv (exampleOutput
           [click 1, [(''go_to_url'', JString ''https://x.test'')], [(''done'', JNull)]]))
        exampleContext
     = (Rejected (Rethrown (URLNotAllowedError ''URL not allowed'')),
        exampleContext
          \<lparr>messageManager :=
             [AddStateMessage (HumanMessage (Text ''Current browser state'')),
              RemoveLastStateMessage,
              AddModelOutput (exampleOutput
                [click 1, [(''go_to_url'', JString ''https://x.test'')], [(''done'', JNull)]])],
           events := [(NAVIGATOR, STEP_START, ''Navigating...'')],
           executed := [(''click_element'', Some (JObject [(''index'', JNumber 1)])),
                        (''go_to_url'', Some (JString ''https://x.test''))]\<rparr>)"
  using disallowed_navigation_is_fatal
    [where env = "exampleEnv (exampleOutput
           [click 1, [(''go_to_url'', JString ''https://x.test'')], [(''done'', JNull)]])"
       and cached = "{''a'', ''b''}" and n = 3 and i = 1
       and item = "[(''go_to_url'', JString ''https://x.test'')]"
       and s = "exampleState 0" and e = "URLNotAllowedError ''URL not allowed''"
       and ?s0.0 = "stateOf (tryAction (exampleEnv (exampleOutput
           [click 1, [(''go_to_url'', JString ''https://x.test'')], [(''done'', JNull)]]))
             {''a'', ''b''} 3 1 [(''go_to_url'', JString ''https://x.test'')] (exampleState 0))"
       and rest = "[[(''done'', JNull)]]"
       and c = exampleContext
       and ?c1.0 = "snd (addStateMessageToMemory (exampleEnv (exampleOutput
           [click 1, [(''go_to_url'', JString ''https://x.test'')], [(''done'', JNull)]]))
             (emitEvent NAVIGATOR STEP_START ''Navigating...'' exampleContext))"
       and modelOutput = "exampleOutput
           [click 1, [(''go_to_url'', JString ''https://x.test'')], [(''done'', JNull)]]"
       and w = "world exampleContext"
       and ?c3.0 = "snd (execute (exampleEnv (exampleOutput
           [click 1, [(''go_to_url'', JString ''https://x.test'')], [(''done'', JNull)]]))
             exampleContext)\<lparr>messageManager :=
             [AddStateMessage (HumanMessage (Text ''Current browser state'')),
              RemoveLastStateMessage,
              AddModelOutput (exampleOutput
                [click 1, [(''go_to_url'', JString ''https://x.test'')], [(''done'', JNull)]])]\<rparr>"]
  by (simp add: example_defs loop_defs doMultiAction_def normaliseActions_def
      List.map_filter_def execute_def executeCatch_def addStateMessageToMemory_def
      removeLastStateMessageFromMemory_def addModelOutputToMemory_def
      isAuthenticationError_def isForbiddenError_def isAbortedError_def)



subsection \<open>The state message and the result buffer\<close>

lemma foldResults_buffer: "fst (foldResults rs mm) = map resetIfInMemory rs"
  by (induction rs arbitrary: mm)
     (simp_all add: resetIfInMemory_def Let_def split_beta)

lemma foldResults_idle:
  "list_all (\<lambda>r. \<not> includeInMemory r) rs \<Longrightarrow> foldResults rs mm = (rs, mm)"
  by (induction rs arbitrary: mm) simp_all

lemma resetIfInMemory_idle: "\<not> includeInMemory (resetIfInMemory r)"
  by (simp add: resetIfInMemory_def emptyActionResult_def)

lemma foldResults_twice:
  "foldResults (fst (foldResults rs mm)) mm' = (fst (foldResults rs mm), mm')"
  by (rule foldResults_idle) (simp add: foldResults_buffer list_all_iff resetIfInMemory_idle)

lemma addStateMessageToMemory_buffer:
  "actionResults (snd (addStateMessageToMemory env c)) =
     (if stateMessageAdded c then actionResults c else map resetIfInMemory (actionResults c))"
proof (cases "stateMessageAdded c")
  case True
  then show ?thesis by (simp add: addStateMessageToMemory_def)
next
  case False
  obtain rs mm where f: "foldResults (actionResults c) (messageManager c) = (rs, mm)"
    by (cases "foldResults (actionResults c) (messageManager c)")
  then have rs: "rs = map resetIfInMemory (actionResults c)"
    using foldResults_buffer [of "actionResults c" "messageManager c"] by simp
  show ?thesis
    using False f rs
    by (cases "actionResults c = []")
       (auto simp: addStateMessageToMemory_def Let_def split: prod.split sum.split)
qed

lemma addStateMessageToMemory_frame:
  "executed (snd (addStateMessageToMemory env c)) = executed c
   \<and> events (snd (addStateMessageToMemory env c)) = events c"
  by (auto simp: addStateMessageToMemory_def Let_def split: prod.split sum.split)

lemma addStateMessageToMemory_idle:
  assumes "\<not> stateMessageAdded c" "list_all (\<lambda>r. \<not> includeInMemory r) (actionResults c)"
  shows "addStateMessageToMemory env c =
     (case getUserMessage env c of
        (Inl e, w) \<Rightarrow> (Some e, c\<lparr>world := w\<rparr>)
      | (Inr state, w) \<Rightarrow>
          (None, c\<lparr>world := w, messageManager := messageManager c @ [AddStateMessage state],
                   stateMessageAdded := True\<rparr>))"
  using assms foldResults_idle [OF assms(2), of "messageManager c"]
  by (simp add: addStateMessageToMemory_def)

lemma addStateMessageToMemory_idle_effect:
  assumes "\<not> stateMessageAdded c" "list_all (\<lambda>r. \<not> includeInMemory r) (actionResults c)"
  shows "actionResults (snd (addStateMessageToMemory env c)) = actionResults c
     \<and> filter isMemoryMessage (messageManager (snd (addStateMessageToMemory env c)))
         = filter isMemoryMessage (messageManager c)"
  by (simp add: addStateMessageToMemory_idle [OF assms] isMemoryMessage_def
      split: prod.split sum.split)

lemma removeLast_frame:
  "actionResults (removeLastStateMessageFromMemory c) = actionResults c
   \<and> \<not> stateMessageAdded (removeLastStateMessageFromMemory c)
   \<and> executed (removeLastStateMessageFromMemory c) = executed c
   \<and> events (removeLastStateMessageFromMemory c) = events c
   \<and> world (removeLastStateMessageFromMemory c) = world c"
  by (simp add: removeLastStateMessageFromMemory_def)

text \<open>
  C8. When \<open>addStateMessageToMemory\<close> folds the buffer (the state message was not yet
  added), the buffer keeps its length and every slot whose result had \<open>includeInMemory\<close>
  holds the empty \<open>ActionResult\<close> afterwards. Folding the buffer again adds no message
  and changes no slot, so a second call, after the state message was removed, adds no
  action result or error to the memory: each one is added at most once.
\<close>

theorem results_folded_once:
  assumes "\<not> stateMessageAdded c"
  shows "length (actionResults (snd (addStateMessageToMemory env c))) = length (actionResults c)
     \<and> (\<forall>i < length (actionResults c).
          includeInMemory (actionResults c ! i) \<longrightarrow>
            actionResults (snd (addStateMessageToMemory env c)) ! i = emptyActionResult)
     \<and> (\<forall>mm. foldResults (actionResults (snd (addStateMessageToMemory env c))) mm
               = (actionResults (snd (addStateMessageToMemory env c)), mm))
     \<and> (\<forall>env'.
          actionResults (snd (addStateMessageToMemory env'
             (removeLastStateMessageFromMemory (snd (addStateMessageToMemory env c)))))
            = actionResults (snd (addStateMessageToMemory env c))
          \<and> filter isMemoryMessage (messageManager (snd (addStateMessageToMemory env'
               (removeLastStateMessageFromMemory (snd (addStateMessageToMemory env c))))))
            = filter isMemoryMessage (messageManager (snd (addStateMessageToMemory env c))))"
proof -
  let ?c' = "snd (addStateMessageToMemory env c)"
  have buf: "actionResults ?c' = map resetIfInMemory (actionResults c)"
    using assms by (simp add: addStateMessageToMemory_buffer)
  have idle: "list_all (\<lambda>r. \<not> includeInMemory r) (actionResults ?c')"
    by (simp add: buf list_all_iff resetIfInMemory_idle)
  have 1: "length (actionResults ?c') = length (actionResults c)"
    by (simp add: buf)
  have 2: "\<forall>i < length (actionResults c).
          includeInMemory (actionResults c ! i) \<longrightarrow> actionResults ?c' ! i = emptyActionResult"
    by (simp add: buf resetIfInMemory_def)
  have 3: "\<forall>mm. foldResults (actionResults ?c') mm = (actionResults ?c', mm)"
    using idle by (simp add: foldResults_idle)
  have 4: "\<forall>env'.
          actionResults (snd (addStateMessageToMemory env' (removeLastStateMessageFromMemory ?c')))
            = actionResults ?c'
          \<and> filter isMemoryMessage (messageManager (snd (addStateMessageToMemory env'
               (removeLastStateMessageFromMemory ?c'))))
            = filter isMemoryMessage (messageManager ?c')"
  proof
    fix env' :: "'a Env"
    let ?r = "removeLastStateMessageFromMemory ?c'"
    have a: "\<not> stateMessageAdded ?r" and b: "actionResults ?r = actionResults ?c'"
      by (simp_all add: removeLast_frame)
    have c: "list_all (\<lambda>r. \<not> includeInMemory r) (actionResults ?r)"
      using idle b by simp
    have d: "filter isMemoryMessage (messageManager ?r) = filter isMemoryMessage (messageManager ?c')"
      by (simp add: removeLastStateMessageFromMemory_def isMemoryMessage_def)
    from addStateMessageToMemory_idle_effect [OF a c, of env'] b d
    show "actionResults (snd (addStateMessageToMemory env' ?r)) = actionResults ?c'
          \<and> filter isMemoryMessage (messageManager (snd (addStateMessageToMemory env' ?r)))
            = filter isMemoryMessage (messageManager ?c')"
      by simp
  qed
  from 1 2 3 4 show ?thesis by blast
qed

text \<open>
  C7, as amended. When \<open>paused\<close> or \<open>stopped\<close> is set at the test before the model is
  invoked, the step returns the bare output, no action is executed, and the buffer is
  not replaced; it is as \<open>addStateMessageToMemory\<close> left it: unchanged when the state
  message was already added, and otherwise with the results that had \<open>includeInMemory\<close>
  reset to the empty \<open>ActionResult\<close>. So the buffer is exactly as before when no
  result in it has \<open>includeInMemory\<close>.
\<close>

theorem paused_before_model_invocation:
  assumes "addStateMessageToMemory env (emitEvent NAVIGATOR STEP_START ''Navigating...'' c)
             = (None, c1)"
    and "pausedOrStopped c1"
  shows "fst (execute env c)
           = Resolved \<lparr>agentId = ''navigator'', agentResult = None, agentError = None\<rparr>
     \<and> executed (snd (execute env c)) = executed c
     \<and> actionResults (snd (execute env c)) =
         (if stateMessageAdded c then actionResults c
          else map resetIfInMemory (actionResults c))
     \<and> (stateMessageAdded c \<or> list_all (\<lambda>r. \<not> includeInMemory r) (actionResults c)
          \<longrightarrow> actionResults (snd (execute env c)) = actionResults c)"
proof -
  let ?c0 = "emitEvent NAVIGATOR STEP_START ''Navigating...'' c"
  have ex: "execute env c = executeCancelled c1"
    using assms by (simp add: execute_def)
  have c1: "c1 = snd (addStateMessageToMemory env ?c0)"
    using assms(1) by simp
  have buf: "actionResults c1 =
      (if stateMessageAdded c then actionResults c else map resetIfInMemory (actionResults c))"
    unfolding c1 addStateMessageToMemory_buffer by (simp add: emitEvent_def)
  have exd: "executed c1 = executed c"
    unfolding c1 using addStateMessageToMemory_frame [of env ?c0] by (simp add: emitEvent_def)
  have same: "list_all (\<lambda>r. \<not> includeInMemory r) (actionResults c)
      \<Longrightarrow> map resetIfInMemory (actionResults c) = actionResults c"
    by (induction "actionResults c") (auto simp: list_all_iff resetIfInMemory_def map_idI)
  show ?thesis
    using buf exd same
    by (auto simp: ex executeCancelled_def emitEvent_def removeLast_frame)
qed

lemma plannerExecute_one_of:
  "plannerExecute env c = (Resolved out, c') \<Longrightarrow>
     (agentResult out = None) \<noteq> (agentError out = None)"
  by (auto simp: plannerExecute_def plannerCatch_def Let_def
      split: sum.splits option.splits if_splits)

lemma validatorExecute_one_of:
  "validatorExecute env plan c = (Resolved out, c') \<Longrightarrow>
     (agentResult out = None) \<noteq> (agentError out = None)"
  by (auto simp: validatorExecute_def validatorCatch_def Let_def
      split: sum.splits option.splits if_splits)

lemma executeCatch_output:
  "executeCatch env e c = (Resolved out, c') \<Longrightarrow>
     agentResult out = None \<and> agentError out \<noteq> None
     \<and> last (events c') \<noteq> (NAVIGATOR, STEP_CANCEL, ''Navigation cancelled'')"
  by (auto simp: executeCatch_def Let_def emitEvent_def split: if_splits)

lemma executeCancelled_output:
  "executeCancelled c = (Resolved out, c') \<Longrightarrow>
     agentResult out = None \<and> agentError out = None
     \<and> last (events c') = (NAVIGATOR, STEP_CANCEL, ''Navigation cancelled'')"
  by (auto simp: executeCancelled_def emitEvent_def)

lemma execute_output:
  assumes "execute env c = (Resolved out, c')"
  shows "(agentResult out \<noteq> None \<and> agentError out = None
          \<and> last (events c') \<noteq> (NAVIGATOR, STEP_CANCEL, ''Navigation cancelled''))
       \<or> (agentResult out = None \<and> agentError out \<noteq> None
          \<and> last (events c') \<noteq> (NAVIGATOR, STEP_CANCEL, ''Navigation cancelled''))
       \<or> (agentResult out = None \<and> agentError out = None
          \<and> last (events c') = (NAVIGATOR, STEP_CANCEL, ''Navigation cancelled''))"
  using assms
  by (auto simp: execute_def Let_def emitEvent_def
      split: prod.splits option.splits sum.splits if_splits
      dest!: executeCatch_output executeCancelled_output)

text \<open>
  C5, as amended. An output returned by the planner or by the validator holds exactly
  one of \<open>result\<close> and \<open>error\<close>. An output returned by the navigator never holds both,
  and it holds neither exactly when the step was cancelled (its last event is
  \<open>STEP_CANCEL\<close>).
\<close>

theorem agent_output_result_or_error:
  "(fst (plannerExecute penv pc) = Resolved po \<longrightarrow>
      (agentResult po = None) \<noteq> (agentError po = None))
   \<and> (fst (validatorExecute venv plan vc) = Resolved vo \<longrightarrow>
      (agentResult vo = None) \<noteq> (agentError vo = None))
   \<and> (fst (execute env c) = Resolved no \<longrightarrow>
      \<not> (agentResult no \<noteq> None \<and> agentError no \<noteq> None)
      \<and> ((agentResult no = None \<and> agentError no = None)
           = (last (events (snd (execute env c)))
                = (NAVIGATOR, STEP_CANCEL, ''Navigation cancelled''))))"
  using plannerExecute_one_of [of penv pc po "snd (plannerExecute penv pc)"]
    validatorExecute_one_of [of venv plan vc vo "snd (validatorExecute venv plan vc)"]
    execute_output [of env c no "snd (execute env c)"]
  by (auto simp: prod_eq_iff)

lemmas execute_defs = execute_def executeCatch_def executeCancelled_def
  addStateMessageToMemory_def removeLastStateMessageFromMemory_def addModelOutputToMemory_def
  doMultiAction_def normaliseActions_def List.map_filter_def
  isAuthenticationError_def isForbiddenError_def isAbortedError_def

theorem agent_output_result_or_error_witness:
  "fst (plannerExecute (exampleAgentEnv (Inr (Some examplePlan))) exampleContext)
     = Resolved \<lparr>agentId = ''planner'', agentResult = Some examplePlan, agentError = None\<rparr>
   \<and> fst (validatorExecute (exampleAgentEnv (Inl (Error ''model unavailable''))) None
            exampleContext)
     = Resolved \<lparr>agentId = ''validator'', agentResult = None,
                 agentError = Some ''Validation failed: model unavailable''\<rparr>
   \<and> fst (execute (exampleEnv (exampleOutput [[(''done'', JNull)]])) exampleContext)
     = Resolved \<lparr>agentId = ''navigator'', agentResult = Some \<lparr>navigatorDone = True\<rparr>,
                 agentError = None\<rparr>
   \<and> fst (execute (exampleEnv \<lparr>current_state = JNull, action = ActionString ''click''\<rparr>)
            exampleContext)
     = Resolved \<lparr>agentId = ''navigator'', agentResult = None,
                 agentError = Some ''Invalid action output format''\<rparr>"
  using agent_output_result_or_error
    [where penv = "exampleAgentEnv (Inr (Some examplePlan))" and pc = exampleContext
       and po = "\<lparr>agentId = ''planner'', agentResult = Some examplePlan, agentError = None\<rparr>"
       and venv = "exampleAgentEnv (Inl (Error ''model unavailable''))" and plan = None
       and vc = exampleContext
       and vo = "\<lparr>agentId = ''validator'', agentResult = None,
                 agentError = Some ''Validation failed: model unavailable''\<rparr>"
       and env = "exampleEnv (exampleOutput [[(''done'', JNull)]])" and c = exampleContext
       and no = "\<lparr>agentId = ''navigator'', agentResult = Some \<lparr>navigatorDone = True\<rparr>,
                 agentError = None\<rparr>"]
  by (simp add: example_defs loop_defs execute_defs exampleAgentEnv_def examplePlan_def
      plannerExecute_def plannerCatch_def validatorExecute_def validatorCatch_def)

text \<open>A navigator step cancelled by the \<open>paused\<close> flag returns neither field.\<close>

theorem cancelled_step_counterexample:
  "fst (execute (exampleEnv (exampleOutput [click 1])) pausedContext)
     = Resolved \<lparr>agentId = ''navigator'', agentResult = None, agentError = None\<rparr>"
  by (simp add: example_defs loop_defs execute_defs pausedContext_def)

theorem paused_before_model_invocation_witness:
  "addStateMessageToMemory (exampleEnv (exampleOutput [click 1]))
       (emitEvent NAVIGATOR STEP_START ''Navigating...''
          (pausedContext\<lparr>actionResults :=
             [\<lparr>extractedContent = Some ''Clicked'', error = None, isDone = Some False,
               includeInMemory = False\<rparr>]\<rparr>))
     = (None, snd (addStateMessageToMemory (exampleEnv (exampleOutput [click 1]))
                    (emitEvent NAVIGATOR STEP_START ''Navigating...''
                       (pausedContext\<lparr>actionResults :=
                          [\<lparr>extractedContent = Some ''Clicked'', error = None,
                            isDone = Some False, includeInMemory = False\<rparr>]\<rparr>))))
   \<and> pausedOrStopped (snd (addStateMessageToMemory (exampleEnv (exampleOutput [click 1]))
                    (emitEvent NAVIGATOR STEP_START ''Navigating...''
                       (pausedContext\<lparr>actionResults :=
                          [\<lparr>extractedContent = Some ''Clicked'', error = None,
                            isDone = Some False, includeInMemory = False\<rparr>]\<rparr>))))
   \<and> executed (snd (execute (exampleEnv (exampleOutput [click 1]))
          (pausedContext\<lparr>actionResults :=
             [\<lparr>extractedContent = Some ''Clicked'', error = None, isDone = Some False,
               includeInMemory = False\<rparr>]\<rparr>))) = []
   \<and> actionResults (snd (execute (exampleEnv (exampleOutput [click 1]))
          (pausedContext\<lparr>actionResults :=
             [\<lparr>extractedContent = Some ''Clicked'', error = None, isDone = Some False,
               includeInMemory = False\<rparr>]\<rparr>)))
       = [\<lparr>extractedContent = Some ''Clicked'', error = None, isDone = Some False,
           includeInMemory = False\<rparr>]"
  using paused_before_model_invocation
    [where env = "exampleEnv (exampleOutput [click 1])"
       and c = "pausedContext\<lparr>actionResults :=
             [\<lparr>extractedContent = Some ''Clicked'', error = None, isDone = Some False,
               includeInMemory = False\<rparr>]\<rparr>"
       and ?c1.0 = "snd (addStateMessageToMemory (exampleEnv (exampleOutput [click 1]))
                    (emitEvent NAVIGATOR STEP_START ''Navigating...''
                       (pausedContext\<lparr>actionResults :=
                          [\<lparr>extractedContent = Some ''Clicked'', error = None,
                            isDone = Some False, includeInMemory = False\<rparr>]\<rparr>)))"]
  by (simp add: example_defs loop_defs execute_defs pausedContext_def)

text \<open>
  A paused step with a result in the buffer that has \<open>includeInMemory\<close>: no action is
  executed, but the slot holds the empty \<open>ActionResult\<close> afterwards.
\<close>

theorem paused_step_resets_buffer_counterexample:
  "pausedOrStopped pausedContext
   \<and> actionResults (snd (execute (exampleEnv (exampleOutput [click 1]))
          (pausedContext\<lparr>actionResults :=
             [\<lparr>extractedContent = Some ''Clicked'', error = None, isDone = Some False,
               includeInMemory = True\<rparr>]\<rparr>)))
       = [emptyActionResult]
   \<and> [emptyActionResult] \<noteq>
        [\<lparr>extractedContent = Some ''Clicked'', error = None, isDone = Some False,
          includeInMemory = True\<rparr>]
   \<and> executed (snd (execute (exampleEnv (exampleOutput [click 1]))
          (pausedContext\<lparr>actionResults :=
             [\<lparr>extractedContent = Some ''Clicked'', error = None, isDone = Some False,
               includeInMemory = True\<rparr>]\<rparr>))) = []"
  by (simp add: example_defs loop_defs execute_defs pausedContext_def emptyActionResult_def
      truthy_def)

theorem results_folded_once_witness:
  "\<not> stateMessageAdded (exampleContext\<lparr>actionResults :=
        [\<lparr>extractedContent = Some ''Clicked'',
          error = Some (''Error: failed'' @ [CHR 0x0A] @ ''element is gone '' @ [CHR 0x0A]),
          isDone = Some False, includeInMemory = True\<rparr>,
         \<lparr>extractedContent = Some ''Kept'', error = None, isDone = None,
          includeInMemory = False\<rparr>]\<rparr>)
   \<and> addStateMessageToMemory (exampleEnv (exampleOutput []))
        (exampleContext\<lparr>actionResults :=
          [\<lparr>extractedContent = Some ''Clicked'',
            error = Some (''Error: failed'' @ [CHR 0x0A] @ ''element is gone '' @ [CHR 0x0A]),
            isDone = Some False, includeInMemory = True\<rparr>,
           \<lparr>extractedContent = Some ''Kept'', error = None, isDone = None,
            includeInMemory = False\<rparr>]\<rparr>)
     = (None,
        exampleContext
          \<lparr>actionResults :=
             [emptyActionResult,
              \<lparr>extractedContent = Some ''Kept'', error = None, isDone = None,
               includeInMemory = False\<rparr>],
           stateMessageAdded := True,
           messageManager :=
             [AddMessageWithTokens (HumanMessage (Text ''Action result: Clicked'')),
              AddMessageWithTokens (HumanMessage (Text ''Action error: element is gone'')),
              AddStateMessage (HumanMessage (Text ''Current browser state''))]\<rparr>)
   \<and> messageManager (snd (addStateMessageToMemory (exampleEnv (exampleOutput []))
        (removeLastStateMessageFromMemory
          (snd (addStateMessageToMemory (exampleEnv (exampleOutput []))
             (exampleContext\<lparr>actionResults :=
               [\<lparr>extractedContent = Some ''Clicked'',
                 error = Some (''Error: failed'' @ [CHR 0x0A] @ ''element is gone '' @ [CHR 0x0A]),
                 isDone = Some False, includeInMemory = True\<rparr>,
                \<lparr>extractedContent = Some ''Kept'', error = None, isDone = None,
                 includeInMemory = False\<rparr>]\<rparr>))))))
     = [AddMessageWithTokens (HumanMessage (Text ''Action result: Clicked'')),
        AddMessageWithTokens (HumanMessage (Text ''Action error: element is gone'')),
        AddStateMessage (HumanMessage (Text ''Current browser state'')),
        RemoveLastStateMessage,
        AddStateMessage (HumanMessage (Text ''Current browser state''))]"
  using results_folded_once
    [where env = "exampleEnv (exampleOutput [])"
       and c = "exampleContext\<lparr>actionResults :=
        [\<lparr>extractedContent = Some ''Clicked'',
          error = Some (''Error: failed'' @ [CHR 0x0A] @ ''element is gone '' @ [CHR 0x0A]),
          isDone = Some False, includeInMemory = True\<rparr>,
         \<lparr>extractedContent = Some ''Kept'', error = None, isDone = None,
          includeInMemory = False\<rparr>]\<rparr>"]
  by (simp add: example_defs execute_defs emptyActionResult_def truthy_def trim_def
      lastLine_def isSpace_def Let_def)

subsection \<open>Pairing of the state message\<close>
























end
